theory Spec2Isabelle
  imports Complex_Main "HOL-Library.Sublist" "HOL-Library.Multiset"
begin

section \<open>The round-robin resolver (schedlib/policies/sat.py, round\_robin)\<close>

text \<open>
  Blocks are kept polymorphic: the resolver only compares them for equality, hands them to
  the overlap test and to the optional sun-avoidance rule, and yields them.
  The two exceptions the resolver can raise are the failed assertion on the number of
  value sequences and the out-of-range read of a value sequence that is shorter than its
  query sequence; the other three are raised by the sequencer.
\<close>

datatype py_error = AssertionError | IndexError | NameError | AttributeError | TypeError

text \<open>
  Modelled from the spec: \<^verbatim>\<open>core.seq_has_overlap_with_block\<close> is called by the resolver
  but the module \<^verbatim>\<open>core\<close> is not among the sources. The spec describes it as "true if the
  candidate's interval intersects any interval already in the sequence". The test on two
  blocks is the parameter \<open>ov\<close>.
\<close>

definition seq_has_overlap_with_block :: "('b \<Rightarrow> 'b \<Rightarrow> bool) \<Rightarrow> 'b list \<Rightarrow> 'b \<Rightarrow> bool" where
  "seq_has_overlap_with_block ov seq block = list_ex (\<lambda>m. ov m block) seq"

text \<open>
  Modelled from the spec: the intersection test on two intervals \<open>(t0, t1)\<close>. The spec
  leaves open whether touching end points count as an overlap; the flag \<open>touching\<close>
  selects the closed (\<open>True\<close>) or the open (\<open>False\<close>) reading.
\<close>

definition block_overlap :: "bool \<Rightarrow> ('t::linorder) \<times> 't \<Rightarrow> 't \<times> 't \<Rightarrow> bool" where
  "block_overlap touching a b =
     (if touching then fst a \<le> snd b \<and> fst b \<le> snd a
      else fst a < snd b \<and> fst b < snd a)"

text \<open>
  The local variables of the generator. \<open>block_idx\<close> is the list the exhaustion test
  reads; \<open>block_i\<close> is the list of cursors the loop advances; \<open>merged\<close> holds the accepted
  query blocks.
\<close>

record 'b rr_state =
  block_idx :: "nat list"
  seq_i :: nat
  block_i :: "nat list"
  merged :: "'b list"

text \<open>
  One pass through the body of \<^verbatim>\<open>while True\<close>:
  \<^item> \<open>Exhausted\<close>: the \<^verbatim>\<open>return\<close> of the first test;
  \<^item> \<open>Rotated\<close>: the \<^verbatim>\<open>continue\<close> taken when the current candidate's cursor is at its end;
  \<^item> \<open>Accepted v\<close>: the branch that yields \<open>v\<close>;
  \<^item> \<open>Rejected\<close>: the branch that logs and skips the block;
  \<^item> \<open>Raised\<close>: an exception.
\<close>

datatype 'b rr_step =
    Exhausted
  | Rotated "'b rr_state"
  | Accepted 'b "'b rr_state"
  | Rejected "'b rr_state"
  | Raised py_error

definition rr_body ::
  "('b \<Rightarrow> 'b \<Rightarrow> bool) \<Rightarrow> ('b \<Rightarrow> 'b option) option \<Rightarrow> 'b list list \<Rightarrow> 'b list list \<Rightarrow>
   'b rr_state \<Rightarrow> 'b rr_step" where
  "rr_body ov sun_avoidance seqs_q seqs_v st =
     (let n_seq = length seqs_q in
      if list_all (\<lambda>i. length (seqs_q ! i) \<le> block_idx st ! i) [0..<n_seq] then Exhausted
      else if length (seqs_q ! seq_i st) \<le> block_i st ! seq_i st
        then Rotated (st\<lparr>seq_i := (seq_i st + 1) mod n_seq\<rparr>)
      else
        let seq_q = seqs_q ! seq_i st;
            seq_v = seqs_v ! seq_i st;
            k = block_i st ! seq_i st;
            block_q = seq_q ! k
        in if length seq_v \<le> k then Raised IndexError
           else
             let block_v = seq_v ! k;
                 ok = (\<not> seq_has_overlap_with_block ov (merged st) block_q
                       \<and> (case sun_avoidance of None \<Rightarrow> True
                          | Some rule \<Rightarrow> rule block_q = Some block_q))
             in if ok then
                  let st1 = st\<lparr>merged := merged st @ [block_q],
                               seq_i := (seq_i st + 1) mod n_seq\<rparr>
                  in Accepted block_v
                       (st1\<lparr>block_i := (block_i st1)[seq_i st1 := block_i st1 ! seq_i st1 + 1]\<rparr>)
                else
                  Rejected (st\<lparr>block_i := (block_i st)[seq_i st := block_i st ! seq_i st + 1]\<rparr>))"

text \<open>
  The generator may loop forever, so the loop carries fuel: one unit for each pass through
  the body. The result is the list of blocks yielded within the fuel, in order, and how the
  run stands: \<open>Finished\<close> when the generator has returned, \<open>Failed\<close> when it has raised,
  \<open>Running st\<close> when the fuel is spent with the generator still inside the loop in state
  \<open>st\<close>.
\<close>

datatype 'b rr_status = Finished | Failed py_error | Running "'b rr_state"

fun rr_loop ::
  "nat \<Rightarrow> ('b \<Rightarrow> 'b \<Rightarrow> bool) \<Rightarrow> ('b \<Rightarrow> 'b option) option \<Rightarrow> 'b list list \<Rightarrow> 'b list list \<Rightarrow>
   'b rr_state \<Rightarrow> 'b list \<times> 'b rr_status" where
  "rr_loop 0 ov sun_avoidance seqs_q seqs_v st = ([], Running st)"
| "rr_loop (Suc n) ov sun_avoidance seqs_q seqs_v st =
     (case rr_body ov sun_avoidance seqs_q seqs_v st of
        Exhausted \<Rightarrow> ([], Finished)
      | Raised e \<Rightarrow> ([], Failed e)
      | Rotated st' \<Rightarrow> rr_loop n ov sun_avoidance seqs_q seqs_v st'
      | Rejected st' \<Rightarrow> rr_loop n ov sun_avoidance seqs_q seqs_v st'
      | Accepted v st' \<Rightarrow>
          (case rr_loop n ov sun_avoidance seqs_q seqs_v st' of (out, r) \<Rightarrow> (v # out, r)))"

definition rr_init :: "'b list list \<Rightarrow> 'b rr_state" where
  "rr_init seqs_q =
     \<lparr>block_idx = replicate (length seqs_q) 0, seq_i = 0,
      block_i = replicate (length seqs_q) 0, merged = []\<rparr>"

definition round_robin ::
  "nat \<Rightarrow> ('b \<Rightarrow> 'b \<Rightarrow> bool) \<Rightarrow> 'b list list \<Rightarrow> 'b list list option \<Rightarrow>
   ('b \<Rightarrow> 'b option) option \<Rightarrow> 'b list \<times> 'b rr_status" where
  "round_robin fuel ov seqs_q seqs_v sun_avoidance =
     (let seqs_v' = (case seqs_v of None \<Rightarrow> seqs_q | Some vs \<Rightarrow> vs) in
      if length seqs_q \<noteq> length seqs_v' then ([], Failed AssertionError)
      else rr_loop fuel ov sun_avoidance seqs_q seqs_v' (rr_init seqs_q))"


section \<open>Operations on the instrument state (schedlib/policies/sat.py)\<close>

text \<open>
  The state handed to every operation. The class \<^verbatim>\<open>State\<close> itself is not among the
  sources; the fields are the keys the operations read and write. Times are seconds as
  real numbers (a \<^verbatim>\<open>datetime\<close> difference is read through \<^verbatim>\<open>total_seconds()\<close>). A field
  that can hold Python's \<^verbatim>\<open>None\<close> is an option.
\<close>

record op_state =
  curr_time :: real
  az_now :: real
  el_now :: real
  boresight_rot_now :: "real option"
  hwp_spinning :: bool
  last_ufm_relock :: "real option"
  az_speed_now :: "real option"
  az_accel_now :: "real option"

text \<open>
  Modelled from the spec: the constants \<^verbatim>\<open>u.hour\<close> and \<^verbatim>\<open>u.minute\<close> of the module
  \<^verbatim>\<open>utils\<close>, which is not among the sources, in seconds.
\<close>

definition hour :: real where
  "hour = 3600"

definition minute :: real where
  "minute = 60"

text \<open>
  A line of the emitted script: literal text, or the call whose arguments are formatted
  into the text.
\<close>

datatype line = Text string | Set_scan_params_call real real

definition ufm_relock :: "op_state \<Rightarrow> (real \<times> line list) \<times> op_state" where
  "ufm_relock state =
     (let doit = (case last_ufm_relock state of
                    None \<Rightarrow> True
                  | Some t \<Rightarrow> 12 * hour < curr_time state - t)
      in if doit then
           ((15 * minute,
             [Text ''############# Daily Relock ######################'',
              Text ''for smurf in pysmurfs:'',
              Text ''    smurf.zero_biases.start()'',
              Text ''for smurf in pysmurfs:'',
              Text ''    smurf.zero_biases.wait()'',
              Text '''',
              Text ''time.sleep(120)'',
              Text ''run.smurf.take_noise(concurrent=True, tag='oper,take_noise,res_check')'',
              Text '''',
              Text ''run.smurf.uxm_relock(concurrent=True)'',
              Text ''#################################################'']),
            state\<lparr>last_ufm_relock := Some (curr_time state)\<rparr>)
         else ((0, [Text ''# no ufm relock needed at this time'']), state))"

definition set_scan_params :: "op_state \<Rightarrow> real \<Rightarrow> real \<Rightarrow> line list \<times> op_state" where
  "set_scan_params state az_speed az_accel =
     (if Some az_speed \<noteq> az_speed_now state \<or> Some az_accel \<noteq> az_accel_now state then
        ([Set_scan_params_call az_speed az_accel],
         state\<lparr>az_speed_now := Some az_speed, az_accel_now := Some az_accel\<rparr>)
      else ([], state))"

section \<open>The operation sequencer (schedlib/policies/sat.py, SATPolicy.seq2cmd)\<close>



text \<open>
  The fields of a block that the sequencer reads; \<open>t0\<close> and \<open>t1\<close> are datetimes.
  \<open>boresight_rot\<close> and \<open>boresight_angle\<close> may be \<^verbatim>\<open>None\<close>.
\<close>

record block =
  name :: string
  t0 :: int
  t1 :: int
  subtype :: string
  tag :: string
  az :: real
  alt :: real
  throw :: real
  az_drift :: real
  boresight_rot :: "real option"
  boresight_angle :: "real option"

text \<open>The keys of the table \<^verbatim>\<open>self.time_costs\<close> that the sequencer looks up, in seconds.\<close>

record time_costs =
  tc_det_setup :: real
  tc_hwp_spin_up :: real
  tc_hwp_spin_down :: real
  tc_bias_step :: real
  tc_ufm_relock :: real

text \<open>
  An element of the list \<^verbatim>\<open>commands\<close>. Each group of lines that the sequencer formats from
  a block is one constructor, with the values formatted into the lines as arguments;
  \<open>Line\<close> is any other element.
\<close>

datatype command =
    Line string
  | Set_scan_params real real
  | Note_skipped block
  | Wait_until int
  | Set_boresight "real option"
  | Cmb_scan block
  | Cal_scan block

text \<open>
  What the sequencer reads from outside its arguments.

  The attributes of the policy: \<^verbatim>\<open>az_speed\<close>, \<^verbatim>\<open>az_accel\<close> and \<^verbatim>\<open>apply_boresight_rot\<close> are
  fields of the class. \<^verbatim>\<open>ufm_relock\<close> and \<^verbatim>\<open>time_costs\<close> are not: reading them raises
  \<^verbatim>\<open>AttributeError\<close> unless the object was given them after its construction, so each is
  an option, \<open>None\<close> when the attribute is absent. \<open>p_preamble_file\<close> holds the lines of
  the file \<^verbatim>\<open>self.preamble_file\<close>, or \<open>None\<close> when that attribute is \<^verbatim>\<open>None\<close> or names no
  existing file; the sequencer then reads the name \<^verbatim>\<open>PREAMBLE\<close>, which the module does not
  define.

  The names of the module: \<^verbatim>\<open>ufm_relock\<close>, \<^verbatim>\<open>hwp_spin_up\<close>, \<^verbatim>\<open>hwp_spin_down\<close>, \<^verbatim>\<open>wrap_up\<close> and
  \<^verbatim>\<open>det_setup\<close> are bound to what the decorator \<^verbatim>\<open>cmd.operation\<close> returns for the functions
  of these names. The module \<^verbatim>\<open>commands\<close> is not among the sources, so what
  \<^verbatim>\<open>commands += hwp_spin_up\<close> and \<^verbatim>\<open>commands += det_setup(az, alt, t)\<close> do is a parameter:
  the elements appended, or the exception raised. With a decorator that returns the
  function itself, the first raises \<^verbatim>\<open>TypeError\<close> (a function is not iterable) and the
  second \<^verbatim>\<open>AttributeError\<close> (the function reads \<^verbatim>\<open>block.az\<close> of its second argument, here
  a number).
\<close>

record seq_env =
  p_preamble_file :: "string list option"
  p_ufm_relock :: "bool option"
  p_time_costs :: "time_costs option"
  p_az_speed :: real
  p_az_accel :: real
  p_apply_boresight_rot :: bool
  m_ufm_relock :: "py_error + command list"
  m_hwp_spin_up :: "py_error + command list"
  m_hwp_spin_down :: "py_error + command list"
  m_wrap_up :: "py_error + command list"
  m_det_setup :: "real \<Rightarrow> real \<Rightarrow> int \<Rightarrow> py_error + command list"

text \<open>The local variables of the sequencer that live across the blocks.\<close>

record seq_state =
  t_cur :: int
  is_det_setup :: bool
  is_hwp_spinning :: bool
  cur_boresight_angle :: "real option"

text \<open>Sequencing: an exception ends the run.\<close>

definition and_then :: "py_error + 'a \<Rightarrow> ('a \<Rightarrow> py_error + 'b) \<Rightarrow> py_error + 'b" where
  "and_then r f = (case r of Inl e \<Rightarrow> Inl e | Inr x \<Rightarrow> f x)"



text \<open>The rotation of the boresight, written twice in the source with the same text.\<close>

definition boresight_step ::
  "seq_env \<Rightarrow> block \<Rightarrow> command list \<times> seq_state \<Rightarrow> command list \<times> seq_state" where
  "boresight_step env b cs =
     (case cs of (commands, st) \<Rightarrow>
        if p_apply_boresight_rot env \<and> boresight_angle b \<noteq> None
           \<and> boresight_rot b \<noteq> cur_boresight_angle st
        then (commands @ [Set_boresight (boresight_angle b)],
              st\<lparr>cur_boresight_angle := boresight_rot b\<rparr>)
        else (commands, st))"
















section \<open>Merging matching specs (schedlib/instrument.py, get\_spec)\<close>











section \<open>Properties of the resolver\<close>

subsection \<open>Running the loop\<close>

text \<open>Fuel composes: a run of \<open>m + n\<close> passes is a run of \<open>m\<close> passes continued for \<open>n\<close>.\<close>

lemma rr_loop_add:
  "rr_loop (m + n) ov sa qs vs st =
     (case rr_loop m ov sa qs vs st of
        (out, Running st') \<Rightarrow> (case rr_loop n ov sa qs vs st' of (out', r) \<Rightarrow> (out @ out', r))
      | (out, Finished) \<Rightarrow> (out, Finished)
      | (out, Failed e) \<Rightarrow> (out, Failed e))"
proof (induction m arbitrary: st)
  case 0
  show ?case by (simp split: prod.splits)
next
  case (Suc m)
  show ?case
    by (simp add: Suc.IH split: rr_step.splits prod.splits rr_status.splits)
qed

text \<open>
  What a pass does to the state. A rejection advances the cursor of the current candidate
  and nothing else. An acceptance appends the query block to \<open>merged\<close>, rotates, and then
  advances the cursor at the new value of \<open>seq_i\<close>.
\<close>

lemma rr_body_rejected:
  "rr_body ov sa qs vs st = Rejected st' \<Longrightarrow>
     st' = st\<lparr>block_i := (block_i st)[seq_i st := block_i st ! seq_i st + 1]\<rparr>"
  by (auto simp: rr_body_def Let_def split: if_splits)

lemma rr_body_accepted:
  "rr_body ov sa qs vs st = Accepted v st' \<Longrightarrow>
     v = vs ! seq_i st ! (block_i st ! seq_i st)
     \<and> merged st' = merged st @ [qs ! seq_i st ! (block_i st ! seq_i st)]
     \<and> seq_i st' = (seq_i st + 1) mod length qs
     \<and> block_i st' = (block_i st)[seq_i st' := block_i st ! seq_i st' + 1]"
  by (auto simp: rr_body_def Let_def split: if_splits)

lemma rr_body_block_idx:
  "rr_body ov sa qs vs st = Rotated st' \<or> rr_body ov sa qs vs st = Accepted v st'
     \<or> rr_body ov sa qs vs st = Rejected st' \<Longrightarrow> block_idx st' = block_idx st"
  by (auto simp: rr_body_def Let_def split: if_splits)

lemma rr_body_not_exhausted:
  assumes "i < length qs" "qs ! i \<noteq> []" "block_idx st = replicate (length qs) 0"
  shows "rr_body ov sa qs vs st \<noteq> Exhausted"
proof -
  have "\<not> list_all (\<lambda>i. length (qs ! i) \<le> block_idx st ! i) [0..<length qs]"
    using assms by (auto simp: list_all_iff)
  then show ?thesis by (simp add: rr_body_def Let_def)
qed

lemma rr_loop_never_finished:
  assumes "i < length qs" "qs ! i \<noteq> []"
  shows "block_idx st = replicate (length qs) 0 \<Longrightarrow> snd (rr_loop n ov sa qs vs st) \<noteq> Finished"
proof (induction n arbitrary: st)
  case 0
  show ?case by simp
next
  case (Suc n)
  have ne: "rr_body ov sa qs vs st \<noteq> Exhausted"
    using assms Suc.prems by (rule rr_body_not_exhausted)
  show ?case
  proof (cases "rr_body ov sa qs vs st")
    case Exhausted
    with ne show ?thesis by simp
  next
    case (Rotated st')
    then have "block_idx st' = replicate (length qs) 0"
      using rr_body_block_idx[of ov sa qs vs st st'] Suc.prems by simp
    with Rotated Suc.IH show ?thesis by simp
  next
    case (Accepted v st')
    then have "block_idx st' = replicate (length qs) 0"
      using rr_body_block_idx[of ov sa qs vs st st' v] Suc.prems by simp
    with Accepted Suc.IH[of st'] show ?thesis
      by (cases "rr_loop n ov sa qs vs st'") simp
  next
    case (Rejected st')
    then have "block_idx st' = replicate (length qs) 0"
      using rr_body_block_idx[of ov sa qs vs st st'] Suc.prems by simp
    with Rejected Suc.IH show ?thesis by simp
  next
    case (Raised e)
    then show ?thesis by simp
  qed
qed

lemma rr_loop_spin:
  assumes "i0 < length qs" "qs ! i0 \<noteq> []"
  shows "block_idx st = replicate (length qs) 0 \<Longrightarrow>
         \<forall>i<length qs. length (qs ! i) \<le> block_i st ! i \<Longrightarrow> seq_i st < length qs \<Longrightarrow>
         rr_loop n ov sa qs vs st = ([], Running (st\<lparr>seq_i := (seq_i st + n) mod length qs\<rparr>))"
proof (induction n arbitrary: st)
  case 0
  then show ?case by simp
next
  case (Suc n)
  let ?st' = "st\<lparr>seq_i := (seq_i st + 1) mod length qs\<rparr>"
  have pos: "0 < length qs" using Suc.prems(3) by (cases qs) simp_all
  have "\<not> list_all (\<lambda>i. length (qs ! i) \<le> block_idx st ! i) [0..<length qs]"
    using assms Suc.prems(1) by (auto simp: list_all_iff)
  then have body: "rr_body ov sa qs vs st = Rotated ?st'"
    using Suc.prems(2,3) by (simp add: rr_body_def Let_def)
  have "rr_loop n ov sa qs vs ?st' = ([], Running (?st'\<lparr>seq_i := (seq_i ?st' + n) mod length qs\<rparr>))"
  proof (rule Suc.IH)
    show "block_idx ?st' = replicate (length qs) 0" using Suc.prems(1) by simp
    show "\<forall>i<length qs. length (qs ! i) \<le> block_i ?st' ! i" using Suc.prems(2) by simp
    show "seq_i ?st' < length qs" using pos by simp
  qed
  moreover have "((seq_i st + 1) mod length qs + n) mod length qs = (seq_i st + Suc n) mod length qs"
    by (simp add: mod_add_left_eq)
  ultimately show ?case using body by simp
qed


text \<open>
  claim C1. The claim: for every finite list of finite candidate sequences the resolver
  terminates, signalling exhaustion exactly when every candidate's cursor has reached the
  end of its list. The code at the single candidate list \<open>[[b]]\<close>: the first pass yields
  \<open>b\<close> and moves the only cursor to the end of its list (\<open>block_i = [1]\<close>); from then on,
  whatever the number of further passes, the generator is still inside its loop in that
  same state and has not returned. The exhaustion test reads \<open>block_idx\<close>, which no
  statement of the loop writes, instead of the cursor list \<open>block_i\<close>.
\<close>

theorem round_robin_single_block_never_returns:
  "round_robin (Suc n) ov [[b]] None None
     = ([b], Running \<lparr>block_idx = [0], seq_i = 0, block_i = [1], merged = [b]\<rparr>)"
proof -
  let ?st = "\<lparr>block_idx = [0], seq_i = 0, block_i = [1::nat], merged = [b]\<rparr>"
  have body: "rr_body ov None [[b]] [[b]] (rr_init [[b]]) = Accepted b ?st"
    by (simp add: rr_body_def rr_init_def seq_has_overlap_with_block_def Let_def)
  have "rr_loop n ov None [[b]] [[b]] ?st
      = ([], Running (?st\<lparr>seq_i := (seq_i ?st + n) mod length [[b]]\<rparr>))"
    by (rule rr_loop_spin[where ?i0.0 = 0]) simp_all
  then have "rr_loop n ov None [[b]] [[b]] ?st = ([], Running ?st)" by simp
  with body show ?thesis by (simp add: round_robin_def)
qed

subsection \<open>The scenarios of the documentation\<close>

lemma scenario_A_eight_passes:
  "rr_loop 8 (block_overlap touching) None [[(1,2),(3,4)],[(5,6)]] [[(1,2),(3,4)],[(5,6)]]
     (rr_init ([[(1,2),(3,4)],[(5,6)]] :: (int \<times> int) list list))
   = ([(1,2),(3,4)],
      Running \<lparr>block_idx = [0,0], seq_i = 0, block_i = [2,2], merged = [(1,2),(3,4)]\<rparr>)"
  by (cases touching)
     (simp_all add: rr_init_def rr_body_def seq_has_overlap_with_block_def
        block_overlap_def Let_def numeral_eq_Suc)

text \<open>
  claim C2. The claim: for the query lists \<open>[[1,2],[3,4]]\<close> and \<open>[[5,6]]\<close>, with no value
  lists and no sun-avoidance rule, the resolver yields \<open>[1,2]\<close>, \<open>[5,6]\<close>, \<open>[3,4]\<close>.
  The code, under either reading of touching end points: after eight passes it has
  yielded \<open>[1,2]\<close> and \<open>[3,4]\<close>, and every further pass yields nothing and does not
  return; \<open>[5,6]\<close> is never yielded, because accepting \<open>[1,2]\<close> advanced the cursor of
  the second candidate past it.
\<close>

theorem round_robin_scenario_A_code:
  "round_robin (8 + n) (block_overlap touching) [[(1,2),(3,4)],[(5,6::int)]] None None
     = ([(1,2),(3,4)],
        Running \<lparr>block_idx = [0,0], seq_i = n mod 2, block_i = [2,2],
                 merged = [(1,2),(3,4)]\<rparr>)"
proof -
  let ?qs = "[[(1,2),(3,4)],[(5,6)]] :: (int \<times> int) list list"
  let ?st = "\<lparr>block_idx = [0,0], seq_i = 0, block_i = [2,2::nat],
              merged = [(1,2),(3,4)] :: (int \<times> int) list\<rparr>"
  have "rr_loop n (block_overlap touching) None ?qs ?qs ?st
      = ([], Running (?st\<lparr>seq_i := (seq_i ?st + n) mod length ?qs\<rparr>))"
    by (rule rr_loop_spin[where ?i0.0 = 0]) (simp_all add: nth_Cons split: nat.splits)
  then show ?thesis
    by (simp add: round_robin_def rr_loop_add scenario_A_eight_passes numeral_2_eq_2)
qed

text \<open>
  claim C3. The claim: when the current candidate's block is accepted, that same
  candidate's cursor is advanced by one and rotation moves to the next candidate.
  The code at the first pass of scenario A: block \<open>[1,2]\<close> of candidate 0 is accepted and
  appended to \<open>merged\<close>, rotation moves to candidate 1, and the cursor that is advanced is
  the one of candidate 1 (\<open>block_i = [0, 1]\<close>); the cursor of candidate 0 stays at 0.
\<close>

theorem rr_body_accept_advances_next_cursor:
  "rr_body (block_overlap touching) None [[(1,2),(3,4)],[(5,6)]] [[(1,2),(3,4)],[(5,6)]]
     (rr_init ([[(1,2),(3,4)],[(5,6)]] :: (int \<times> int) list list))
   = Accepted (1,2) \<lparr>block_idx = [0,0], seq_i = 1, block_i = [0,1], merged = [(1,2)]\<rparr>"
  by (simp add: rr_init_def rr_body_def seq_has_overlap_with_block_def Let_def numeral_eq_Suc)

lemma scenario_B_five_passes:
  "rr_loop 5 (block_overlap touching) (Some Some)
     [[(1,3),(2,4)],[(6,7)]] [[(10,15),(20,25)],[(30,35)]]
     (rr_init ([[(1,3),(2,4)],[(6,7)]] :: (int \<times> int) list list))
   = ([(10,15)],
      Running \<lparr>block_idx = [0,0], seq_i = 1, block_i = [2,1], merged = [(1,3)]\<rparr>)"
  by (cases touching)
     (simp_all add: rr_init_def rr_body_def seq_has_overlap_with_block_def
        block_overlap_def Let_def numeral_eq_Suc)

text \<open>
  claim C5. The claim: for the query lists \<open>[[1,3],[2,4]]\<close> and \<open>[[6,7]]\<close>, the value lists
  \<open>[[10,15],[20,25]]\<close> and \<open>[[30,35]]\<close> and a sun-avoidance rule that returns every block
  unchanged, the output is \<open>[10,15]\<close>, \<open>[30,35]\<close>.
  The code, under either reading of touching end points: after five passes it has
  yielded \<open>[10,15]\<close> only, and every further pass yields nothing and does not return;
  \<open>[6,7]\<close> is never tested, because accepting \<open>[1,3]\<close> advanced the cursor of the second
  candidate past it.
\<close>

theorem round_robin_scenario_B_code:
  "round_robin (5 + n) (block_overlap touching) [[(1,3),(2,4)],[(6,7::int)]]
       (Some [[(10,15),(20,25)],[(30,35)]]) (Some Some)
     = ([(10,15)],
        Running \<lparr>block_idx = [0,0], seq_i = (1 + n) mod 2, block_i = [2,1],
                 merged = [(1,3)]\<rparr>)"
proof -
  let ?qs = "[[(1,3),(2,4)],[(6,7)]] :: (int \<times> int) list list"
  let ?vs = "[[(10,15),(20,25)],[(30,35)]] :: (int \<times> int) list list"
  let ?st = "\<lparr>block_idx = [0,0], seq_i = 1, block_i = [2,1::nat],
              merged = [(1,3)] :: (int \<times> int) list\<rparr>"
  have "rr_loop n (block_overlap touching) (Some Some) ?qs ?vs ?st
      = ([], Running (?st\<lparr>seq_i := (seq_i ?st + n) mod length ?qs\<rparr>))"
    by (rule rr_loop_spin[where ?i0.0 = 0]) (simp_all add: nth_Cons split: nat.splits)
  then show ?thesis
    by (simp add: round_robin_def rr_loop_add scenario_B_five_passes numeral_2_eq_2)
qed

subsection \<open>Accepted blocks do not overlap\<close>

text \<open>
  \<open>sorted_wrt (\<lambda>a b. \<not> ov a b) xs\<close> says that no block of \<open>xs\<close> overlaps a later one.
  With the value sequences defaulted to the query sequences the yielded blocks are the
  blocks appended to \<open>merged\<close>, each of which passed the overlap test against all earlier
  ones.
\<close>

lemma rr_body_same_values:
  "rr_body ov sa qs qs st = Accepted v st' \<Longrightarrow>
     merged st' = merged st @ [v] \<and> \<not> seq_has_overlap_with_block ov (merged st) v"
  by (auto simp: rr_body_def Let_def split: if_splits)

lemma rr_body_merged_kept:
  "rr_body ov sa qs vs st = Rotated st' \<or> rr_body ov sa qs vs st = Rejected st' \<Longrightarrow>
     merged st' = merged st"
  by (auto simp: rr_body_def Let_def split: if_splits)

lemma rr_loop_no_overlap:
  "sorted_wrt (\<lambda>a b. \<not> ov a b) (merged st) \<Longrightarrow>
   sorted_wrt (\<lambda>a b. \<not> ov a b) (merged st @ fst (rr_loop n ov sa qs qs st))"
proof (induction n arbitrary: st)
  case 0
  then show ?case by simp
next
  case (Suc n)
  show ?case
  proof (cases "rr_body ov sa qs qs st")
    case Exhausted
    with Suc.prems show ?thesis by simp
  next
    case (Rotated st')
    then have "merged st' = merged st" using rr_body_merged_kept[of ov sa qs qs st st'] by simp
    with Rotated Suc.IH[of st'] Suc.prems show ?thesis by simp
  next
    case (Accepted v st')
    then have m: "merged st' = merged st @ [v]"
      and no: "\<not> seq_has_overlap_with_block ov (merged st) v"
      using rr_body_same_values[of ov sa qs st v st'] by simp_all
    have "sorted_wrt (\<lambda>a b. \<not> ov a b) (merged st')"
      using Suc.prems no unfolding m
      by (simp add: sorted_wrt_append seq_has_overlap_with_block_def list_ex_iff)
    then have "sorted_wrt (\<lambda>a b. \<not> ov a b) (merged st' @ fst (rr_loop n ov sa qs qs st'))"
      by (rule Suc.IH)
    with Accepted m show ?thesis
      by (cases "rr_loop n ov sa qs qs st'") simp
  next
    case (Rejected st')
    then have "merged st' = merged st" using rr_body_merged_kept[of ov sa qs qs st st'] by simp
    with Rejected Suc.IH[of st'] Suc.prems show ?thesis by simp
  next
    case (Raised e)
    with Suc.prems show ?thesis by simp
  qed
qed

lemma round_robin_no_overlap:
  "sorted_wrt (\<lambda>a b. \<not> ov a b) (fst (round_robin n ov seqs_q None sa))"
  using rr_loop_no_overlap[of ov "rr_init seqs_q" n sa seqs_q]
  by (simp add: round_robin_def rr_init_def)

lemma sorted_wrt_insort_key_sym:
  assumes sym: "\<And>a b. P a b \<Longrightarrow> P b a"
  shows "sorted_wrt P (insort_key f x xs) = ((\<forall>y\<in>set xs. P x y) \<and> sorted_wrt P xs)"
proof (induction xs)
  case Nil
  show ?case by simp
next
  case (Cons a xs)
  have "P a x = P x a" using sym by blast
  with Cons.IH show ?case by (auto simp: set_insort_key)
qed

lemma sorted_wrt_sort_key_sym:
  assumes sym: "\<And>a b. P a b \<Longrightarrow> P b a"
  shows "sorted_wrt P (sort_key f xs) = sorted_wrt P xs"
  by (induction xs) (simp_all add: sorted_wrt_insort_key_sym[of P, OF sym])

lemma block_overlap_sym: "block_overlap touching a b = block_overlap touching b a"
  by (auto simp: block_overlap_def)

text \<open>
  claim C4. For every input with the value sequences defaulted to the query sequences, the
  blocks yielded by the resolver within any number of passes, re-sorted by \<open>t0\<close>, are
  pairwise non-overlapping: no two of them have intersecting intervals, under either
  reading of touching end points.
\<close>

theorem round_robin_output_non_overlapping:
  fixes seqs_q :: "('a::linorder \<times> 'a) list list"
  shows "i < j \<Longrightarrow> j < length (sort_key fst (fst (round_robin n (block_overlap touching) seqs_q None sa)))
   \<Longrightarrow> \<not> block_overlap touching
         (sort_key fst (fst (round_robin n (block_overlap touching) seqs_q None sa)) ! i)
         (sort_key fst (fst (round_robin n (block_overlap touching) seqs_q None sa)) ! j)"
proof -
  let ?out = "fst (round_robin n (block_overlap touching) seqs_q None sa)"
  assume ij: "i < j" "j < length (sort_key fst ?out)"
  have "sorted_wrt (\<lambda>a b. \<not> block_overlap touching a b) ?out"
    by (rule round_robin_no_overlap)
  moreover have "\<And>a b :: 'a \<times> 'a. \<not> block_overlap touching a b \<Longrightarrow> \<not> block_overlap touching b a"
    using block_overlap_sym by blast
  ultimately have "sorted_wrt (\<lambda>a b. \<not> block_overlap touching a b) (sort_key fst ?out)"
    by (simp add: sorted_wrt_sort_key_sym[of "\<lambda>a b. \<not> block_overlap touching a b"])
  with ij show ?thesis
    by (simp add: sorted_wrt_iff_nth_less)
qed


theorem round_robin_output_non_overlapping_witness:
  "sort_key fst (fst (round_robin 3 (block_overlap True) [[(5,6),(1,2::int)]] None None))
     = [(1,2),(5,6)]
   \<and> \<not> block_overlap True
         (sort_key fst (fst (round_robin 3 (block_overlap True) [[(5,6),(1,2::int)]] None None)) ! 0)
         (sort_key fst (fst (round_robin 3 (block_overlap True) [[(5,6),(1,2::int)]] None None)) ! 1)"
proof -
  have out: "fst (round_robin 3 (block_overlap True) [[(5,6),(1,2::int)]] None None)
      = [(5,6),(1,2)]"
    by (simp add: round_robin_def rr_init_def rr_body_def seq_has_overlap_with_block_def
        block_overlap_def Let_def numeral_eq_Suc)
  have len: "1 < length (sort_key fst
      (fst (round_robin 3 (block_overlap True) [[(5,6),(1,2::int)]] None None)))"
    by (simp add: out)
  have "(0::nat) < 1" by simp
  from round_robin_output_non_overlapping[OF this len] show ?thesis
    by (simp add: out)
qed

section \<open>Properties of the operations\<close>

text \<open>
  claim C7. For every instrument state, the ufm-relock operation performs a relock, that
  is returns a duration of 15 minutes (900 seconds) and sets the time of the last relock
  to the current time, if and only if no relock has been recorded yet or more than 12
  hours (43200 seconds) lie between the last relock and the current time; otherwise it
  returns the duration zero and leaves the state unchanged.
\<close>

theorem ufm_relock_iff:
  "(last_ufm_relock state = None \<or> 12 * 3600 < curr_time state - the (last_ufm_relock state)
      \<longrightarrow> fst (fst (ufm_relock state)) = 15 * 60
          \<and> snd (ufm_relock state) = state\<lparr>last_ufm_relock := Some (curr_time state)\<rparr>)
   \<and> (\<not> (last_ufm_relock state = None \<or> 12 * 3600 < curr_time state - the (last_ufm_relock state))
      \<longrightarrow> fst (fst (ufm_relock state)) = 0 \<and> snd (ufm_relock state) = state)
   \<and> (fst (fst (ufm_relock state)) = 15 * 60
      \<longleftrightarrow> last_ufm_relock state = None
          \<or> 12 * 3600 < curr_time state - the (last_ufm_relock state))"
  by (cases "last_ufm_relock state") (simp_all add: ufm_relock_def hour_def minute_def)

theorem ufm_relock_iff_witness:
  "fst (fst (ufm_relock \<lparr>curr_time = 50000, az_now = 180, el_now = 60, boresight_rot_now = Some 0,
     hwp_spinning = False, last_ufm_relock = Some 0, az_speed_now = None, az_accel_now = None\<rparr>)) = 900
   \<and> fst (fst (ufm_relock \<lparr>curr_time = 40000, az_now = 180, el_now = 60, boresight_rot_now = Some 0,
     hwp_spinning = False, last_ufm_relock = Some 0, az_speed_now = None, az_accel_now = None\<rparr>)) = 0"
  using ufm_relock_iff[of "\<lparr>curr_time = 50000, az_now = 180, el_now = 60, boresight_rot_now = Some 0,
     hwp_spinning = False, last_ufm_relock = Some 0, az_speed_now = None, az_accel_now = None\<rparr>"]
    ufm_relock_iff[of "\<lparr>curr_time = 40000, az_now = 180, el_now = 60, boresight_rot_now = Some 0,
     hwp_spinning = False, last_ufm_relock = Some 0, az_speed_now = None, az_accel_now = None\<rparr>"]
  by simp

text \<open>
  claim C10. The set-scan-params operation emits a command and updates \<open>az_speed_now\<close> and
  \<open>az_accel_now\<close> if and only if the requested speed or acceleration differs from the
  state; applied a second time with the same arguments it returns the empty command list
  and leaves the state unchanged.
\<close>

theorem set_scan_params_iff:
  "(fst (set_scan_params state az_speed az_accel) \<noteq> []
      \<longleftrightarrow> Some az_speed \<noteq> az_speed_now state \<or> Some az_accel \<noteq> az_accel_now state)
   \<and> (Some az_speed \<noteq> az_speed_now state \<or> Some az_accel \<noteq> az_accel_now state
      \<longrightarrow> set_scan_params state az_speed az_accel
            = ([Set_scan_params_call az_speed az_accel],
               state\<lparr>az_speed_now := Some az_speed, az_accel_now := Some az_accel\<rparr>))
   \<and> (\<not> (Some az_speed \<noteq> az_speed_now state \<or> Some az_accel \<noteq> az_accel_now state)
      \<longrightarrow> set_scan_params state az_speed az_accel = ([], state))
   \<and> set_scan_params (snd (set_scan_params state az_speed az_accel)) az_speed az_accel
       = ([], snd (set_scan_params state az_speed az_accel))"
  by (simp add: set_scan_params_def)

theorem set_scan_params_iff_witness:
  "set_scan_params \<lparr>curr_time = 0, az_now = 180, el_now = 60, boresight_rot_now = Some 0,
     hwp_spinning = False, last_ufm_relock = None, az_speed_now = None, az_accel_now = None\<rparr> 1 2
   = ([Set_scan_params_call 1 2],
      \<lparr>curr_time = 0, az_now = 180, el_now = 60, boresight_rot_now = Some 0,
     hwp_spinning = False, last_ufm_relock = None, az_speed_now = Some 1, az_accel_now = Some 2\<rparr>)
   \<and> set_scan_params \<lparr>curr_time = 0, az_now = 180, el_now = 60, boresight_rot_now = Some 0,
     hwp_spinning = False, last_ufm_relock = None, az_speed_now = Some 1, az_accel_now = Some 2\<rparr> 1 2
   = ([], \<lparr>curr_time = 0, az_now = 180, el_now = 60, boresight_rot_now = Some 0,
     hwp_spinning = False, last_ufm_relock = None, az_speed_now = Some 1, az_accel_now = Some 2\<rparr>)"
  using set_scan_params_iff[of "\<lparr>curr_time = 0, az_now = 180, el_now = 60, boresight_rot_now = Some 0,
     hwp_spinning = False, last_ufm_relock = None, az_speed_now = None, az_accel_now = None\<rparr>" 1 2]
  by (simp add: set_scan_params_def)

section \<open>Properties of the sequencer\<close>

lemma and_then_Inr [simp]: "and_then (Inr x) f = f x"
  by (simp add: and_then_def)

lemma and_then_Inl [simp]: "and_then (Inl e) f = Inl e"
  by (simp add: and_then_def)



lemma boresight_step_prefix:
  "boresight_step env b (c, st) = (c', st') \<Longrightarrow> prefix c c'"
  by (auto simp: boresight_step_def split: if_splits)












section \<open>Properties of get\_spec\<close>










end
